theory Spec2Isabelle
  imports Complex_Main
begin

section \<open>Python values\<close>

text \<open>
  The adapter of \<^verbatim>\<open>d3rlpy/logging/wandb_adapter.py\<close> forwards values without computing
  on them. A float is therefore carried in a type parameter \<open>'f\<close>: nothing below depends
  on its representation. Integers are Python's unbounded integers.
\<close>

datatype 'f pyval = PyNone | PyBool bool | PyInt int | PyFloat 'f | PyStr string

text \<open>
  A dictionary with string keys, in insertion order. Storing under a key that is already
  present replaces the value and keeps the key's position, as Python's dict does.
\<close>

type_synonym 'f dict = "(string \<times> 'f pyval) list"

fun dict_set :: "string \<Rightarrow> 'v \<Rightarrow> (string \<times> 'v) list \<Rightarrow> (string \<times> 'v) list" where
  "dict_set k v [] = [(k, v)]"
| "dict_set k v ((k', v') # d) =
     (if k' = k then (k', v) # d else (k', v') # dict_set k v d)"

text \<open>
  The exceptions the module can raise by itself. \<open>ImportError msg cause\<close> carries the
  exception it was chained from (\<^verbatim>\<open>raise ... from e\<close>).
\<close>

datatype pyerror =
    ImportError string "pyerror option"
  | NameError string
  | AttributeError string

subsection \<open>Formatting an integer\<close>

text \<open>
  \<^verbatim>\<open>f"model_{epoch}.d3"\<close> formats \<open>epoch\<close> as \<^verbatim>\<open>str\<close> does: decimal digits, with a
  leading minus sign for a negative number.
\<close>

definition digit_char :: "nat \<Rightarrow> char" where
  "digit_char d = ''0123456789'' ! d"

function str_nat :: "nat \<Rightarrow> string" where
  "str_nat n = (if n < 10 then [digit_char n] else str_nat (n div 10) @ [digit_char (n mod 10)])"
  by pat_completeness auto
termination
  by (relation "measure (\<lambda>n. n)") auto

declare str_nat.simps [simp del]

definition str_int :: "int \<Rightarrow> string" where
  "str_int i = (if i < 0 then CHR ''-'' # str_nat (nat (- i)) else str_nat (nat i))"

subsection \<open>Reading a decimal numeral\<close>

text \<open>
  The converse of the formatting, written on its own: the value of a decimal numeral in
  canonical form (digits only, no leading zero, a minus sign only before a positive
  number). Everything else is refused. It serves to say which number a file name carries.
\<close>

definition digit_val :: "char \<Rightarrow> nat option" where
  "digit_val c =
     map_of [(CHR ''0'', 0), (CHR ''1'', 1), (CHR ''2'', 2), (CHR ''3'', 3), (CHR ''4'', 4),
             (CHR ''5'', 5), (CHR ''6'', 6), (CHR ''7'', 7), (CHR ''8'', 8), (CHR ''9'', 9)] c"

fun read_digits :: "nat \<Rightarrow> string \<Rightarrow> nat option" where
  "read_digits acc [] = Some acc"
| "read_digits acc (c # cs) =
     (case digit_val c of None \<Rightarrow> None | Some d \<Rightarrow> read_digits (10 * acc + d) cs)"

definition read_nat :: "string \<Rightarrow> nat option" where
  "read_nat s =
     (case s of
        [] \<Rightarrow> None
      | c # cs \<Rightarrow> if c = CHR ''0'' \<and> cs \<noteq> [] then None else read_digits 0 s)"

definition read_int :: "string \<Rightarrow> int option" where
  "read_int s =
     (case s of
        [] \<Rightarrow> None
      | c # cs \<Rightarrow>
          if c = CHR ''-''
          then (case read_nat cs of
                  None \<Rightarrow> None
                | Some n \<Rightarrow> if n = 0 then None else Some (- int n))
          else map_option int (read_nat s))"

section \<open>Paths\<close>

text \<open>
  \<^verbatim>\<open>pathlib.Path\<close> in its POSIX flavour: a root (\<^verbatim>\<open>''\<close>, \<^verbatim>\<open>'/'\<close> or \<^verbatim>\<open>'//'\<close>) and the
  components after it. Parsing a string drops empty components and \<^verbatim>\<open>'.'\<close>; exactly two
  leading slashes are kept as the root \<^verbatim>\<open>'//'\<close>, any other number of them is \<^verbatim>\<open>'/'\<close>.
\<close>

record path =
  p_root :: string
  p_tail :: "string list"

fun split_on :: "char \<Rightarrow> string \<Rightarrow> string list" where
  "split_on c [] = [[]]"
| "split_on c (x # xs) =
     (if x = c then [] # split_on c xs
      else (case split_on c xs of
              [] \<Rightarrow> [[x]]
            | y # ys \<Rightarrow> (x # y) # ys))"

definition parse_root :: "string \<Rightarrow> string" where
  "parse_root s =
     (if take 1 s \<noteq> ''/'' then ''''
      else if take 2 s = ''//'' \<and> take 3 s \<noteq> ''///'' then ''//''
      else ''/'')"

definition parse_parts :: "string \<Rightarrow> string list" where
  "parse_parts s = filter (\<lambda>p. p \<noteq> '''' \<and> p \<noteq> ''.'') (split_on CHR ''/'' s)"

definition Path :: "string \<Rightarrow> path" where
  "Path s = \<lparr>p_root = parse_root s, p_tail = parse_parts s\<rparr>"

text \<open>
  \<^verbatim>\<open>p / key\<close>: an absolute \<open>key\<close> replaces \<open>p\<close>, a relative one is appended.
\<close>

definition truediv :: "path \<Rightarrow> string \<Rightarrow> path" where
  "truediv p key =
     (let k = Path key
      in if p_root k \<noteq> '''' then k else \<lparr>p_root = p_root p, p_tail = p_tail p @ p_tail k\<rparr>)"

fun join :: "string \<Rightarrow> string list \<Rightarrow> string" where
  "join sep [] = ''''"
| "join sep [x] = x"
| "join sep (x # y # ys) = x @ sep @ join sep (y # ys)"

definition path_str :: "path \<Rightarrow> string" where
  "path_str p =
     (if p_root p = '''' \<and> p_tail p = [] then ''.'' else p_root p @ join ''/'' (p_tail p))"

section \<open>The world outside the adapter\<close>

text \<open>
  A run handle and a save-capable training object are identified by a number. Every call
  the adapter makes on an external collaborator is recorded, in order, in a trace.
\<close>

type_synonym run_handle = nat
type_synonym algo = nat

datatype 'f event =
    Init run_handle "string option" "string option"
  | ConfigUpdate run_handle "'f dict"
  | Log run_handle "'f dict" int
  | Finish run_handle
  | Save algo path

text \<open>
  \<open>wandb_import\<close> is what \<^verbatim>\<open>import wandb\<close> does: \<open>None\<close> when the module imports,
  \<open>Some msg\<close> when the import raises an \<^verbatim>\<open>ImportError\<close> with message \<open>msg\<close>.
  \<open>wandb_run\<close> is the client's process-wide current run (\<^verbatim>\<open>wandb.run\<close>), \<open>None\<close> when no
  run is open; \<open>next_run\<close> is the handle the next new run gets, and \<open>run_dir\<close> the working
  directory the service gives each run.
\<close>

record 'f world =
  wandb_import :: "string option"
  next_run :: run_handle
  wandb_run :: "run_handle option"
  run_dir :: "run_handle \<Rightarrow> string"
  trace :: "'f event list"

text \<open>
  Modelled from the spec: the tracking-service client is a third-party library, not part
  of this repository. The spec lists the capabilities the adapter consumes:
  \<^verbatim>\<open>init(project, name) -> run handle\<close>, \<^verbatim>\<open>run.config.update(mapping)\<close>,
  \<^verbatim>\<open>run.log(mapping, step)\<close>, \<^verbatim>\<open>run.dir\<close> and \<^verbatim>\<open>run.finish()\<close>. It does not say which
  handle \<^verbatim>\<open>init\<close> returns. Called with a project and a name and nothing else, as the adapter
  calls it, the client returns the run that is still open in the process, and starts a new
  run only when none is open; \<^verbatim>\<open>finish\<close> closes the run. The event \<open>Init r project name\<close>
  records the call and the handle it returned. The calls are taken to return normally:
  what the service itself may raise is not modelled.
\<close>

definition wandb_init ::
  "string option \<Rightarrow> string option \<Rightarrow> 'f world \<Rightarrow> run_handle \<times> 'f world" where
  "wandb_init project name w =
     (case wandb_run w of
        Some r \<Rightarrow> (r, w\<lparr>trace := trace w @ [Init r project name]\<rparr>)
      | None \<Rightarrow>
          (let r = next_run w
           in (r, w\<lparr>next_run := Suc r, wandb_run := Some r,
                     trace := trace w @ [Init r project name]\<rparr>)))"

definition run_config_update :: "run_handle \<Rightarrow> 'f dict \<Rightarrow> 'f world \<Rightarrow> 'f world" where
  "run_config_update r params w = w\<lparr>trace := trace w @ [ConfigUpdate r params]\<rparr>"

definition run_log :: "run_handle \<Rightarrow> 'f dict \<Rightarrow> int \<Rightarrow> 'f world \<Rightarrow> 'f world" where
  "run_log r payload step w = w\<lparr>trace := trace w @ [Log r payload step]\<rparr>"

definition run_finish :: "run_handle \<Rightarrow> 'f world \<Rightarrow> 'f world" where
  "run_finish r w =
     w\<lparr>wandb_run := (if wandb_run w = Some r then None else wandb_run w),
       trace := trace w @ [Finish r]\<rparr>"

text \<open>
  Modelled from the spec: \<^verbatim>\<open>SaveProtocol\<close> is declared in \<^verbatim>\<open>d3rlpy/logging/logger.py\<close>,
  which is not among the sources; the spec describes it as a capability with the one
  operation \<^verbatim>\<open>save(path)\<close>.
\<close>

definition algo_save :: "algo \<Rightarrow> path \<Rightarrow> 'f world \<Rightarrow> 'f world" where
  "algo_save a p w = w\<lparr>trace := trace w @ [Save a p]\<rparr>"

section \<open>Module namespace\<close>

text \<open>
  The names bound at module level of \<^verbatim>\<open>wandb_adapter.py\<close>: the three imports, \<^verbatim>\<open>__all__\<close>
  and the two classes. The \<^verbatim>\<open>import wandb\<close> of the constructor binds \<^verbatim>\<open>wandb\<close> in the
  constructor's local scope only. A name that a method does not assign is looked up here
  (no builtin is called \<^verbatim>\<open>wandb\<close>).
\<close>

definition module_globals :: "string list" where
  "module_globals =
     [''Any'', ''Dict'', ''Optional'', ''Path'',
      ''LoggerAdapter'', ''LoggerAdapterFactory'', ''SaveProtocol'',
      ''__all__'', ''LoggerWanDBAdapter'', ''WanDBAdapterFactory'']"

definition load_global :: "string \<Rightarrow> pyerror + unit" where
  "load_global name = (if name \<in> set module_globals then Inr () else Inl (NameError name))"

section \<open>LoggerWanDBAdapter\<close>

record adapter =
  run :: run_handle
  model_dir :: "path option"

text \<open>
  Every method takes the object and the world and returns its result, the object and the
  world afterwards. A method that returns \<^verbatim>\<open>None\<close> returns \<open>Inr ()\<close>.
\<close>

definition LoggerWanDBAdapter_init ::
  "string option \<Rightarrow> path option \<Rightarrow> string option \<Rightarrow> 'f world
     \<Rightarrow> (pyerror + adapter) \<times> 'f world" where
  "LoggerWanDBAdapter_init project mdir experiment_name w =
     (case wandb_import w of
        Some msg \<Rightarrow> (Inl (ImportError ''Please install wandb'' (Some (ImportError msg None))), w)
      | None \<Rightarrow>
          (case wandb_init project experiment_name w of
             (r, w') \<Rightarrow> (Inr \<lparr>run = r, model_dir = mdir\<rparr>, w')))"

definition write_params ::
  "adapter \<Rightarrow> 'f dict \<Rightarrow> 'f world \<Rightarrow> (pyerror + unit) \<times> adapter \<times> 'f world" where
  "write_params self params w = (Inr (), self, run_config_update (run self) params w)"

definition before_write_metric ::
  "adapter \<Rightarrow> int \<Rightarrow> int \<Rightarrow> 'f world \<Rightarrow> (pyerror + unit) \<times> adapter \<times> 'f world" where
  "before_write_metric self epoch step w = (Inr (), self, w)"

definition write_metric ::
  "adapter \<Rightarrow> int \<Rightarrow> int \<Rightarrow> string \<Rightarrow> 'f \<Rightarrow> 'f world
     \<Rightarrow> (pyerror + unit) \<times> adapter \<times> 'f world" where
  "write_metric self epoch step name val w =
     (Inr (), self,
      run_log (run self) (dict_set ''epoch'' (PyInt epoch) (dict_set name (PyFloat val) [])) step w)"

definition after_write_metric ::
  "adapter \<Rightarrow> int \<Rightarrow> int \<Rightarrow> 'f world \<Rightarrow> (pyerror + unit) \<times> adapter \<times> 'f world" where
  "after_write_metric self epoch step w = (Inr (), self, w)"

text \<open>
  \<^verbatim>\<open>save_model\<close>: with no model directory the method evaluates \<^verbatim>\<open>Path(wandb.run.dir)\<close>,
  which starts by looking up the name \<^verbatim>\<open>wandb\<close>; reading \<^verbatim>\<open>dir\<close> of \<^verbatim>\<open>None\<close> (no current
  run) would raise an \<^verbatim>\<open>AttributeError\<close>.
\<close>

definition save_model ::
  "adapter \<Rightarrow> int \<Rightarrow> algo \<Rightarrow> 'f world \<Rightarrow> (pyerror + unit) \<times> adapter \<times> 'f world" where
  "save_model self epoch a w =
     (case (case model_dir self of
              Some d \<Rightarrow> Inr d
            | None \<Rightarrow>
                (case load_global ''wandb'' of
                   Inl e \<Rightarrow> Inl e
                 | Inr _ \<Rightarrow>
                     (case wandb_run w of
                        None \<Rightarrow> Inl (AttributeError ''dir'')
                      | Some r \<Rightarrow> Inr (Path (run_dir w r))))) of
        Inl e \<Rightarrow> (Inl e, self, w)
      | Inr d \<Rightarrow>
          (let model_path = truediv d (''model_'' @ str_int epoch @ ''.d3'')
           in (Inr (), self, algo_save a model_path w)))"

definition close :: "adapter \<Rightarrow> 'f world \<Rightarrow> (pyerror + unit) \<times> adapter \<times> 'f world" where
  "close self w = (Inr (), self, run_finish (run self) w)"

section \<open>WanDBAdapterFactory\<close>

text \<open>
  The fields \<^verbatim>\<open>_project\<close> and \<^verbatim>\<open>_model_dir\<close>.
\<close>

record factory =
  project :: "string option"
  fmodel_dir :: "path option"

text \<open>
  Modelled from the spec: the base class \<^verbatim>\<open>LoggerAdapterFactory\<close> is declared in
  \<^verbatim>\<open>d3rlpy/logging/logger.py\<close>, which is not among the sources; the spec describes it as
  an interface with the one operation \<^verbatim>\<open>create\<close>, so its constructor, which is called
  first, does nothing.
\<close>

definition WanDBAdapterFactory_init :: "string option \<Rightarrow> path option \<Rightarrow> factory" where
  "WanDBAdapterFactory_init proj mdir = \<lparr>project = proj, fmodel_dir = mdir\<rparr>"

definition create ::
  "factory \<Rightarrow> string \<Rightarrow> 'f world \<Rightarrow> (pyerror + adapter) \<times> factory \<times> 'f world" where
  "create self experiment_name w =
     (case LoggerWanDBAdapter_init (project self) (fmodel_dir self) (Some experiment_name) w of
        (res, w') \<Rightarrow> (res, self, w'))"

section \<open>Example values\<close>

text \<open>
  A process in which the client is installed and no run has been started, and one in
  which the client is missing.
\<close>

definition world0 :: "real world" where
  "world0 = \<lparr>wandb_import = None, next_run = 0, wandb_run = None,
              run_dir = (\<lambda>r. ''/wandb/run-'' @ str_nat r @ ''/files''), trace = []\<rparr>"

definition world_no_client :: "real world" where
  "world_no_client = world0\<lparr>wandb_import := Some ''No module named wandb''\<rparr>"

section \<open>Helper facts\<close>

lemma digit_char_digit: "d < 10 \<Longrightarrow> digit_char d \<in> set ''0123456789''"
  unfolding digit_char_def by (rule nth_mem) simp

lemma digit_char_not_slash: "d < 10 \<Longrightarrow> digit_char d \<noteq> CHR ''/''"
  using digit_char_digit [of d] by auto

lemma split_on_notin: "c \<notin> set s \<Longrightarrow> split_on c s = [s]"
  by (induction s) auto

lemma str_nat_no_slash: "CHR ''/'' \<notin> set (str_nat n)"
proof (induction n rule: str_nat.induct)
  case (1 n)
  show ?case
  proof (cases "n < 10")
    case True
    then show ?thesis
      using digit_char_not_slash [of n] by (subst str_nat.simps) auto
  next
    case False
    then have "n mod 10 < 10" by simp
    with False 1 show ?thesis
      using digit_char_not_slash [of "n mod 10"] by (subst str_nat.simps) auto
  qed
qed

lemma str_int_no_slash: "CHR ''/'' \<notin> set (str_int i)"
  by (simp add: str_int_def str_nat_no_slash)

text \<open>The file name of a checkpoint is one relative component, whatever the epoch.\<close>

lemma Path_model_file:
  "Path (''model_'' @ str_int e @ ''.d3'') =
     \<lparr>p_root = '''', p_tail = [''model_'' @ str_int e @ ''.d3'']\<rparr>"
  by (simp add: Path_def parse_root_def parse_parts_def split_on_notin str_int_no_slash)

lemma truediv_model_file:
  "truediv d (''model_'' @ str_int e @ ''.d3'') =
     \<lparr>p_root = p_root d, p_tail = p_tail d @ [''model_'' @ str_int e @ ''.d3'']\<rparr>"
  unfolding truediv_def Path_model_file by simp

lemma join_snoc: "xs \<noteq> [] \<Longrightarrow> join sep (xs @ [x]) = join sep xs @ sep @ x"
  by (induction sep xs rule: join.induct) auto

lemma path_str_snoc:
  "p_tail d \<noteq> [] \<Longrightarrow>
     path_str \<lparr>p_root = p_root d, p_tail = p_tail d @ [x]\<rparr> = path_str d @ ''/'' @ x"
  by (simp add: path_str_def join_snoc)

lemma trace_world0: "trace world0 = []"
  by (simp add: world0_def)

lemma import_world0: "wandb_import world0 = None"
  by (simp add: world0_def)

lemma next_run_world0: "next_run world0 = 0"
  by (simp add: world0_def)

lemma import_world_no_client: "wandb_import world_no_client = Some ''No module named wandb''"
  by (simp add: world_no_client_def)

lemma load_global_wandb: "load_global ''wandb'' = Inl (NameError ''wandb'')"
  by (simp add: load_global_def module_globals_def)

lemma str_int_5: "str_int 5 = ''5''"
  by (simp add: str_int_def str_nat.simps digit_char_def)

lemma Path_out: "Path ''/out'' = \<lparr>p_root = ''/'', p_tail = [''out'']\<rparr>"
  by (simp add: Path_def parse_root_def parse_parts_def)

text \<open>Reading back what the formatting wrote gives the number, and no other text reads as it.\<close>

lemma lt10_cases:
  "d < (10::nat) \<Longrightarrow>
     d = 0 \<or> d = 1 \<or> d = 2 \<or> d = 3 \<or> d = 4 \<or> d = 5 \<or> d = 6 \<or> d = 7 \<or> d = 8 \<or> d = 9"
  by arith

lemma digit_val_digit_char: "d < 10 \<Longrightarrow> digit_val (digit_char d) = Some d"
  using lt10_cases [of d] by (auto simp: digit_val_def digit_char_def)

lemma digit_val_inv: "digit_val c = Some d \<Longrightarrow> d < 10 \<and> c = digit_char d"
  by (auto simp: digit_val_def digit_char_def split: if_splits)

lemma digit_char_zero: "d < 10 \<Longrightarrow> digit_char d = CHR ''0'' \<longleftrightarrow> d = 0"
  using lt10_cases [of d] by (auto simp: digit_char_def)

lemma digit_char_not_minus: "d < 10 \<Longrightarrow> digit_char d \<noteq> CHR ''-''"
  using lt10_cases [of d] by (auto simp: digit_char_def)

lemma read_digits_snoc:
  "read_digits acc (xs @ [c]) =
     (case read_digits acc xs of
        None \<Rightarrow> None
      | Some m \<Rightarrow> (case digit_val c of None \<Rightarrow> None | Some d \<Rightarrow> Some (10 * m + d)))"
  by (induction xs arbitrary: acc) (auto split: option.splits)

lemma str_nat_nonempty: "str_nat n \<noteq> []"
  by (subst str_nat.simps) simp

lemma read_digits_str_nat: "read_digits 0 (str_nat n) = Some n"
proof (induction n rule: str_nat.induct)
  case (1 n)
  show ?case
  proof (cases "n < 10")
    case True
    then show ?thesis
      by (subst str_nat.simps) (simp add: digit_val_digit_char)
  next
    case False
    then have "read_digits 0 (str_nat (n div 10)) = Some (n div 10)" using 1 by simp
    moreover have "n mod 10 < 10" by simp
    ultimately show ?thesis using False
      by (subst str_nat.simps) (simp add: read_digits_snoc digit_val_digit_char)
  qed
qed

lemma hd_str_nat: "hd (str_nat n) \<noteq> CHR ''-'' \<and> (hd (str_nat n) = CHR ''0'' \<longrightarrow> n = 0)"
proof (induction n rule: str_nat.induct)
  case (1 n)
  show ?case
  proof (cases "n < 10")
    case True
    then show ?thesis
      by (subst (1 2) str_nat.simps) (simp add: digit_char_zero digit_char_not_minus)
  next
    case False
    then have "hd (str_nat n) = hd (str_nat (n div 10))"
      by (subst str_nat.simps) (simp add: str_nat_nonempty)
    moreover from False have "n div 10 \<noteq> 0" by simp
    ultimately show ?thesis using 1 False by simp
  qed
qed

lemma str_nat_0: "str_nat 0 = ''0''"
  by (simp add: str_nat.simps digit_char_def)

lemma read_nat_str_nat: "read_nat (str_nat n) = Some n"
proof (cases "str_nat n")
  case Nil
  then show ?thesis using str_nat_nonempty [of n] by simp
next
  case (Cons c cs)
  then have c: "c = hd (str_nat n)" by simp
  show ?thesis
  proof (cases "n = 0")
    case True
    then show ?thesis by (simp add: str_nat_0 read_nat_def digit_val_def)
  next
    case False
    with hd_str_nat [of n] c have "c \<noteq> CHR ''0''" by auto
    then show ?thesis
      using read_digits_str_nat [of n] Cons by (simp add: read_nat_def)
  qed
qed

lemma read_int_str_int: "read_int (str_int i) = Some i"
proof (cases "i < 0")
  case True
  then show ?thesis
    by (simp add: str_int_def read_int_def read_nat_str_nat)
next
  case False
  obtain c cs where cons: "str_nat (nat i) = c # cs"
    using str_nat_nonempty [of "nat i"] by (cases "str_nat (nat i)") auto
  then have "c \<noteq> CHR ''-''" using hd_str_nat [of "nat i"] by auto
  with False cons show ?thesis
    using read_nat_str_nat [of "nat i"] by (simp add: str_int_def read_int_def)
qed

lemma read_digits_mono: "read_digits acc xs = Some m \<Longrightarrow> acc \<le> m"
proof (induction xs arbitrary: acc)
  case Nil
  then show ?case by simp
next
  case (Cons c cs)
  then obtain d where d: "digit_val c = Some d" and r: "read_digits (10 * acc + d) cs = Some m"
    by (auto split: option.splits)
  from Cons.IH [OF r] show ?case by simp
qed

lemma read_nat_pos:
  assumes "read_nat (x # xs) = Some m" and "x \<noteq> CHR ''0''"
  shows "0 < m"
proof -
  from assms obtain d where d: "digit_val x = Some d" and r: "read_digits d xs = Some m"
    by (auto simp: read_nat_def split: option.splits if_splits)
  from digit_val_inv [OF d] assms(2) have "d \<noteq> 0"
    using digit_char_zero [of d] by auto
  with read_digits_mono [OF r] show ?thesis by simp
qed

lemma read_nat_unique: "read_nat s = Some n \<Longrightarrow> s = str_nat n"
proof (induction s arbitrary: n rule: rev_induct)
  case Nil
  then show ?case by (simp add: read_nat_def)
next
  case (snoc c xs)
  show ?case
  proof (cases xs)
    case Nil
    with snoc.prems have "digit_val c = Some n"
      by (auto simp: read_nat_def split: option.splits)
    from digit_val_inv [OF this] Nil show ?thesis
      by (subst str_nat.simps) simp
  next
    case (Cons x xs')
    with snoc.prems have x0: "x \<noteq> CHR ''0''" and rd: "read_digits 0 (xs @ [c]) = Some n"
      by (auto simp: read_nat_def split: if_splits)
    from rd obtain m d where m: "read_digits 0 xs = Some m" and d: "digit_val c = Some d"
      and n: "n = 10 * m + d"
      by (auto simp: read_digits_snoc split: option.splits)
    from m x0 Cons have rn: "read_nat xs = Some m" by (simp add: read_nat_def)
    from snoc.IH [OF rn] have xs: "xs = str_nat m" .
    from rn Cons x0 have "0 < m" using read_nat_pos by blast
    moreover from digit_val_inv [OF d] have d10: "d < 10" and c: "c = digit_char d" by auto
    ultimately have "\<not> n < 10" "n div 10 = m" "n mod 10 = d" using n by auto
    then show ?thesis using xs c by (subst str_nat.simps) simp
  qed
qed

lemma read_int_unique: "read_int s = Some i \<Longrightarrow> s = str_int i"
proof (cases s)
  case Nil
  assume "read_int s = Some i"
  with Nil show ?thesis by (simp add: read_int_def)
next
  case (Cons c cs)
  assume r: "read_int s = Some i"
  show ?thesis
  proof (cases "c = CHR ''-''")
    case True
    with r Cons obtain n where "read_nat cs = Some n" "n \<noteq> 0" "i = - int n"
      by (auto simp: read_int_def split: option.splits if_splits)
    with read_nat_unique [of cs n] Cons True show ?thesis
      by (simp add: str_int_def)
  next
    case False
    with r Cons obtain n where "read_nat s = Some n" "i = int n"
      by (auto simp: read_int_def)
    with read_nat_unique [of s n] show ?thesis
      by (simp add: str_int_def)
  qed
qed

lemma str_int_12: "str_int 12 = ''12''"
  by (simp add: str_int_def str_nat.simps digit_char_def)

lemma wandb_run_world0: "wandb_run world0 = None"
  by (simp add: world0_def)

text \<open>
  What \<^verbatim>\<open>create\<close> does on its own account: one \<^verbatim>\<open>wandb.init\<close> call with the factory's
  project and the experiment name, and an adapter that holds the handle the call returned
  and the factory's model directory.
\<close>

lemma create_calls_init:
  "wandb_import w = None \<Longrightarrow>
     \<exists>a w'. create f name w = (Inr a, f, w')
            \<and> trace w' = trace w @ [Init (run a) (project f) (Some name)]
            \<and> model_dir a = fmodel_dir f"
  by (simp add: create_def LoggerWanDBAdapter_init_def wandb_init_def Let_def
      split: option.split)

text \<open>When the first adapter is closed before the second is created, the handles differ.\<close>

lemma create_close_create:
  "wandb_import w = None \<Longrightarrow> wandb_run w = None \<Longrightarrow>
     \<exists>a1 w1 w2 a2 w3.
        create f name1 w = (Inr a1, f, w1)
        \<and> close a1 w1 = (Inr (), a1, w2)
        \<and> create f name2 w2 = (Inr a2, f, w3)
        \<and> run a1 \<noteq> run a2"
  by (simp add: create_def LoggerWanDBAdapter_init_def wandb_init_def Let_def
      close_def run_finish_def)

text \<open>With no model directory \<^verbatim>\<open>save_model\<close> stops at the name \<^verbatim>\<open>wandb\<close>, whatever the epoch.\<close>

lemma save_model_no_dir:
  "model_dir self = None \<Longrightarrow> save_model self epoch a w = (Inl (NameError ''wandb''), self, w)"
  by (simp add: save_model_def load_global_wandb)

text \<open>
  No path of \<^verbatim>\<open>save_model\<close> calls the run handle: whatever it records is a call of
  \<^verbatim>\<open>algo.save\<close>, and it records at most one.
\<close>

lemma save_model_trace:
  "save_model self epoch a w = (res, self', w') \<Longrightarrow>
     trace w' = trace w \<or> (\<exists>p. trace w' = trace w @ [Save a p])"
  by (auto simp: save_model_def algo_save_def Let_def split: option.splits sum.splits)

section \<open>Properties\<close>

text \<open>
  C7: \<^verbatim>\<open>write_params(params)\<close> returns no value and makes exactly one call, the
  configuration update of the held run handle, with the mapping it was given, unmodified.
\<close>

theorem write_params_forwards:
  "\<exists>w'. write_params self params w = (Inr (), self, w')
         \<and> trace w' = trace w @ [ConfigUpdate (run self) params]"
  by (simp add: write_params_def run_config_update_def)

text \<open>\<^verbatim>\<open>write_params({"lr": 0.001})\<close>: the key \<^verbatim>\<open>lr\<close> with its value reaches the update call.\<close>

theorem write_params_forwards_witness:
  "\<exists>w'. write_params \<lparr>run = 0, model_dir = None\<rparr> [(''lr'', PyFloat 0.001)] world0
            = (Inr (), \<lparr>run = 0, model_dir = None\<rparr>, w')
         \<and> trace w' = [ConfigUpdate 0 [(''lr'', PyFloat 0.001)]]"
  using write_params_forwards [of "\<lparr>run = 0, model_dir = None\<rparr>" "[(''lr'', PyFloat 0.001)]" world0]
  by (simp add: trace_world0)

text \<open>
  C6: \<^verbatim>\<open>close()\<close> returns no value and makes exactly one call, \<^verbatim>\<open>finish\<close> of the held run
  handle; it makes no other call on a run handle.
\<close>

theorem close_finishes_once:
  "\<exists>w'. close self w = (Inr (), self, w') \<and> trace w' = trace w @ [Finish (run self)]"
  by (simp add: close_def run_finish_def)

theorem close_finishes_once_witness:
  "\<exists>w'. close \<lparr>run = 0, model_dir = None\<rparr> world0 = (Inr (), \<lparr>run = 0, model_dir = None\<rparr>, w')
         \<and> trace w' = [Finish 0]"
  using close_finishes_once [of "\<lparr>run = 0, model_dir = None\<rparr>" world0]
  by (simp add: trace_world0)

text \<open>
  C2: \<^verbatim>\<open>write_metric(epoch, step, name, value)\<close> makes exactly one call, \<^verbatim>\<open>log\<close> of the held
  run handle, with the step given and the dictionary \<^verbatim>\<open>{name: value, "epoch": epoch}\<close>:
  as a mapping, \<open>name\<close> to the value and then \<^verbatim>\<open>"epoch"\<close> to the epoch.
\<close>

theorem write_metric_logs_once:
  "\<exists>payload.
     write_metric self epoch step name val w =
       (Inr (), self, w\<lparr>trace := trace w @ [Log (run self) payload step]\<rparr>)
     \<and> payload = (if name = ''epoch'' then [(''epoch'', PyInt epoch)]
                   else [(name, PyFloat val), (''epoch'', PyInt epoch)])
     \<and> map_of payload = [name \<mapsto> PyFloat val, ''epoch'' \<mapsto> PyInt epoch]"
  by (auto simp: write_metric_def run_log_def)

text \<open>
  \<^verbatim>\<open>write_metric(epoch=3, step=100, name="loss", value=0.5)\<close> logs
  \<^verbatim>\<open>{"loss": 0.5, "epoch": 3}\<close> at step 100.
\<close>

theorem write_metric_logs_once_witness:
  "write_metric \<lparr>run = 0, model_dir = None\<rparr> 3 100 ''loss'' 0.5 world0 =
     (Inr (), \<lparr>run = 0, model_dir = None\<rparr>,
      world0\<lparr>trace := [Log 0 [(''loss'', PyFloat 0.5), (''epoch'', PyInt 3)] 100]\<rparr>)"
  using write_metric_logs_once [of "\<lparr>run = 0, model_dir = None\<rparr>" 3 100 "''loss''" "0.5" world0]
  by (simp add: trace_world0)

text \<open>
  C9: with the name \<^verbatim>\<open>"epoch"\<close> the logged dictionary is \<^verbatim>\<open>{"epoch": epoch}\<close> alone: the
  epoch replaces the metric's value, and the call made does not depend on that value.
\<close>

theorem write_metric_epoch_name:
  "write_metric self epoch step ''epoch'' val w =
     (Inr (), self, w\<lparr>trace := trace w @ [Log (run self) [(''epoch'', PyInt epoch)] step]\<rparr>)
   \<and> write_metric self epoch step ''epoch'' val w = write_metric self epoch step ''epoch'' val' w"
  by (simp add: write_metric_def run_log_def)

theorem write_metric_epoch_name_witness:
  "write_metric \<lparr>run = 0, model_dir = None\<rparr> 3 100 ''epoch'' 0.5 world0 =
     (Inr (), \<lparr>run = 0, model_dir = None\<rparr>,
      world0\<lparr>trace := [Log 0 [(''epoch'', PyInt 3)] 100]\<rparr>)
   \<and> write_metric \<lparr>run = 0, model_dir = None\<rparr> 3 100 ''epoch'' 0.5 world0 =
       write_metric \<lparr>run = 0, model_dir = None\<rparr> 3 100 ''epoch'' 7 world0"
  using write_metric_epoch_name [of "\<lparr>run = 0, model_dir = None\<rparr>" 3 100 "0.5" world0 7]
  by (auto simp: trace_world0)

text \<open>
  C3: with a model directory configured, \<^verbatim>\<open>save_model(epoch, algo)\<close> returns no value and
  makes exactly one call, \<^verbatim>\<open>algo.save\<close>, with the path that extends the model directory
  by the one component \<^verbatim>\<open>model_<epoch>.d3\<close>: the numeral between \<^verbatim>\<open>model_\<close> and \<^verbatim>\<open>.d3\<close>
  reads back as the epoch. When the directory has a component of its own, the text of
  that path is the directory's text, a slash and the file name.
\<close>

theorem save_model_configured_dir:
  assumes "model_dir self = Some d"
  shows "\<exists>p s. save_model self epoch a w = (Inr (), self, w\<lparr>trace := trace w @ [Save a p]\<rparr>)
             \<and> p = \<lparr>p_root = p_root d, p_tail = p_tail d @ [''model_'' @ s @ ''.d3'']\<rparr>
             \<and> read_int s = Some epoch
             \<and> s = str_int epoch
             \<and> (p_tail d \<noteq> [] \<longrightarrow> path_str p = path_str d @ ''/'' @ ''model_'' @ s @ ''.d3'')"
proof -
  let ?name = "''model_'' @ str_int epoch @ ''.d3''"
  let ?p = "\<lparr>p_root = p_root d, p_tail = p_tail d @ [?name]\<rparr>"
  have call: "save_model self epoch a w = (Inr (), self, w\<lparr>trace := trace w @ [Save a ?p]\<rparr>)"
    unfolding save_model_def Let_def truediv_model_file using assms
    by (simp add: algo_save_def)
  have rendering: "p_tail d \<noteq> [] \<longrightarrow> path_str ?p = path_str d @ ''/'' @ ?name"
    using path_str_snoc [of d ?name] by blast
  have numeral: "read_int (str_int epoch) = Some epoch"
    by (rule read_int_str_int)
  from call rendering numeral show ?thesis by blast
qed

text \<open>
  \<^verbatim>\<open>save_model(epoch=5, algo)\<close> with the model directory \<^verbatim>\<open>/out\<close> saves to
  \<^verbatim>\<open>/out/model_5.d3\<close>, and with epoch 12 to \<^verbatim>\<open>/out/model_12.d3\<close>.
\<close>

theorem save_model_configured_dir_witness:
  "model_dir \<lparr>run = 0, model_dir = Some (Path ''/out'')\<rparr> = Some (Path ''/out'')
   \<and> p_tail (Path ''/out'') \<noteq> []
   \<and> (\<exists>p. save_model \<lparr>run = 0, model_dir = Some (Path ''/out'')\<rparr> 5 1 world0 =
             (Inr (), \<lparr>run = 0, model_dir = Some (Path ''/out'')\<rparr>,
              world0\<lparr>trace := [Save 1 p]\<rparr>)
          \<and> p = \<lparr>p_root = ''/'', p_tail = [''out'', ''model_5.d3'']\<rparr>
          \<and> path_str p = ''/out/model_5.d3'')
   \<and> (\<exists>p. save_model \<lparr>run = 0, model_dir = Some (Path ''/out'')\<rparr> 12 1 world0 =
             (Inr (), \<lparr>run = 0, model_dir = Some (Path ''/out'')\<rparr>,
              world0\<lparr>trace := [Save 1 p]\<rparr>)
          \<and> p = \<lparr>p_root = ''/'', p_tail = [''out'', ''model_12.d3'']\<rparr>
          \<and> path_str p = ''/out/model_12.d3'')
   \<and> read_int ''5'' = Some 5 \<and> read_int ''12'' = Some 12"
  using save_model_configured_dir
    [of "\<lparr>run = 0, model_dir = Some (Path ''/out'')\<rparr>" "Path ''/out''" 5 1 world0]
    save_model_configured_dir
    [of "\<lparr>run = 0, model_dir = Some (Path ''/out'')\<rparr>" "Path ''/out''" 12 1 world0]
  by (simp add: trace_world0 Path_out str_int_5 str_int_12 path_str_def)

text \<open>
  C4: when \<^verbatim>\<open>import wandb\<close> fails, the constructor raises
  \<^verbatim>\<open>ImportError("Please install wandb")\<close> chained from the import's own error, and no run
  is initialized; when the import succeeds, the constructor itself makes the one
  \<^verbatim>\<open>wandb.init\<close> call, with the project and the experiment name, and holds the handle
  that call returned.
\<close>

theorem constructor_import_outcome:
  "(wandb_import w = Some msg \<longrightarrow>
      LoggerWanDBAdapter_init proj mdir name w =
        (Inl (ImportError ''Please install wandb'' (Some (ImportError msg None))), w))
   \<and> (wandb_import w = None \<longrightarrow>
        (\<exists>self w'. LoggerWanDBAdapter_init proj mdir name w = (Inr self, w')
                    \<and> trace w' = trace w @ [Init (run self) proj name]
                    \<and> model_dir self = mdir))"
  by (simp add: LoggerWanDBAdapter_init_def wandb_init_def Let_def split: option.split)

theorem constructor_import_outcome_witness:
  "wandb_import world_no_client = Some ''No module named wandb''
   \<and> LoggerWanDBAdapter_init (Some ''proj'') None (Some ''run-a'') world_no_client =
        (Inl (ImportError ''Please install wandb''
               (Some (ImportError ''No module named wandb'' None))), world_no_client)
   \<and> wandb_import world0 = None
   \<and> (\<exists>self w'. LoggerWanDBAdapter_init (Some ''proj'') None (Some ''run-a'') world0 = (Inr self, w')
                   \<and> trace w' = [Init (run self) (Some ''proj'') (Some ''run-a'')]
                   \<and> model_dir self = None)"
  using constructor_import_outcome
      [of world_no_client "''No module named wandb''" "Some ''proj''" None "Some ''run-a''"]
    constructor_import_outcome
      [of world0 "''No module named wandb''" "Some ''proj''" None "Some ''run-a''"]
  by (simp add: trace_world0 import_world0 import_world_no_client)

text \<open>
  C5: two calls of \<^verbatim>\<open>create\<close> on one factory, the first adapter still open. Both calls
  succeed and each makes its \<^verbatim>\<open>wandb.init\<close> call with the project and its own experiment
  name, but the second call is handed the run of the first: the two adapters hold the
  same run handle.
\<close>

theorem create_twice_shares_run:
  "(case create (WanDBAdapterFactory_init (Some ''proj'') (Some (Path ''/out''))) ''run-a'' world0 of
      (Inr a1, f1, w1) \<Rightarrow>
        (case create f1 ''run-b'' w1 of
           (Inr a2, f2, w2) \<Rightarrow>
             run a1 = run a2
             \<and> trace w2 = [Init (run a1) (Some ''proj'') (Some ''run-a''),
                            Init (run a1) (Some ''proj'') (Some ''run-b'')]
         | (Inl e, f2, w2) \<Rightarrow> False)
    | (Inl e, f1, w1) \<Rightarrow> False)"
  by (simp add: create_def LoggerWanDBAdapter_init_def wandb_init_def Let_def
      WanDBAdapterFactory_init_def import_world0 wandb_run_world0 trace_world0)

text \<open>
  C8: the constructor sets the adapter's two fields, and none of \<^verbatim>\<open>write_params\<close>,
  \<^verbatim>\<open>before_write_metric\<close>, \<^verbatim>\<open>write_metric\<close>, \<^verbatim>\<open>after_write_metric\<close>, \<^verbatim>\<open>save_model\<close> and
  \<^verbatim>\<open>close\<close> changes them; the factory's constructor sets its two fields, and \<^verbatim>\<open>create\<close>
  leaves them as they are.
\<close>

theorem configuration_fields_fixed:
  "(wandb_import w = None \<longrightarrow>
      fst (LoggerWanDBAdapter_init proj mdir name w) =
        Inr \<lparr>run = (case wandb_run w of Some r \<Rightarrow> r | None \<Rightarrow> next_run w),
             model_dir = mdir\<rparr>)
   \<and> fst (snd (write_params self params w)) = self
   \<and> fst (snd (before_write_metric self epoch step w)) = self
   \<and> fst (snd (write_metric self epoch step mname val w)) = self
   \<and> fst (snd (after_write_metric self epoch step w)) = self
   \<and> fst (snd (save_model self epoch a w)) = self
   \<and> fst (snd (close self w)) = self
   \<and> WanDBAdapterFactory_init proj mdir = \<lparr>project = proj, fmodel_dir = mdir\<rparr>
   \<and> fst (snd (create f ename w)) = f"
  by (simp add: LoggerWanDBAdapter_init_def wandb_init_def write_params_def
      before_write_metric_def write_metric_def after_write_metric_def save_model_def
      close_def WanDBAdapterFactory_init_def create_def Let_def
      split: option.split sum.split prod.split)

theorem configuration_fields_fixed_witness:
  "wandb_import world0 = None
   \<and> fst (LoggerWanDBAdapter_init (Some ''proj'') (Some (Path ''/out'')) (Some ''run-a'') world0)
       = Inr \<lparr>run = 0, model_dir = Some (Path ''/out'')\<rparr>
   \<and> fst (snd (write_params \<lparr>run = 0, model_dir = None\<rparr> [(''lr'', PyFloat 0.001)] world0))
       = \<lparr>run = 0, model_dir = None\<rparr>
   \<and> fst (snd (save_model \<lparr>run = 0, model_dir = None\<rparr> 5 1 world0))
       = \<lparr>run = 0, model_dir = None\<rparr>
   \<and> fst (snd (close \<lparr>run = 0, model_dir = None\<rparr> world0)) = \<lparr>run = 0, model_dir = None\<rparr>
   \<and> fst (snd (create \<lparr>project = Some ''proj'', fmodel_dir = None\<rparr> ''run-a'' world0))
       = \<lparr>project = Some ''proj'', fmodel_dir = None\<rparr>"
  using configuration_fields_fixed
    [of world0 "Some ''proj''" "Some (Path ''/out'')" "Some ''run-a''"
        "\<lparr>run = 0, model_dir = None\<rparr>" "[(''lr'', PyFloat 0.001)]" 5 0 "''loss''" "0.5" 1
        "\<lparr>project = Some ''proj'', fmodel_dir = None\<rparr>" "''run-a''"]
  by (simp add: import_world0 next_run_world0 wandb_run_world0)

text \<open>
  C1: an adapter constructed with no model directory. \<^verbatim>\<open>save_model\<close> raises
  \<^verbatim>\<open>NameError\<close> for the name \<^verbatim>\<open>wandb\<close> and calls neither the run handle nor
  \<^verbatim>\<open>algo.save\<close>.
\<close>

theorem save_model_no_dir_name_error:
  "(case LoggerWanDBAdapter_init None None (Some ''run-a'') world0 of
      (Inr self, w) \<Rightarrow>
        model_dir self = None
        \<and> save_model self 5 1 w = (Inl (NameError ''wandb''), self, w)
    | (Inl e, w) \<Rightarrow> False)"
  by (simp add: LoggerWanDBAdapter_init_def wandb_init_def Let_def import_world0
      wandb_run_world0 save_model_def load_global_wandb)

text \<open>
  C10: for the same adapter, \<^verbatim>\<open>save_model\<close> does not return normally and the trace is
  what it was: there is no \<^verbatim>\<open>algo.save\<close> call.
\<close>

theorem save_model_no_dir_no_save:
  "(case LoggerWanDBAdapter_init None None (Some ''run-a'') world0 of
      (Inr self, w) \<Rightarrow>
        (case save_model self 5 1 w of
           (res, self', w') \<Rightarrow>
             res \<noteq> Inr () \<and> trace w' = trace w \<and> (\<forall>p. Save 1 p \<notin> set (trace w')))
    | (Inl e, w) \<Rightarrow> False)"
  by (simp add: LoggerWanDBAdapter_init_def wandb_init_def Let_def import_world0 trace_world0
      wandb_run_world0 save_model_def load_global_wandb)

end
